theory Spec2Isabelle
  imports Complex_Main
begin

section \<open>Numbers\<close>

text \<open>
  The controller of \<^verbatim>\<open>controller.py\<close> computes on float64 values (Python floats and
  numpy scalars and arrays). A finite float is modelled by the real number it denotes:
  rounding, overflow and the sign of zero are outside this model, and the arguments of
  every method are finite. What is kept of IEEE arithmetic is what numpy does where the
  source divides: division by zero raises nothing, it yields an infinity or NaN, and the
  value flows on through the following operations. \<open>npfloat\<close> is a float64 result
  with these special values.
\<close>

datatype npfloat = Fin real | PInf | NInf | NaN

fun np_neg :: "npfloat \<Rightarrow> npfloat" where
  "np_neg (Fin a) = Fin (- a)"
| "np_neg PInf = NInf"
| "np_neg NInf = PInf"
| "np_neg NaN = NaN"

fun np_add :: "npfloat \<Rightarrow> npfloat \<Rightarrow> npfloat" where
  "np_add (Fin a) (Fin b) = Fin (a + b)"
| "np_add NaN y = NaN"
| "np_add x NaN = NaN"
| "np_add PInf NInf = NaN"
| "np_add NInf PInf = NaN"
| "np_add PInf y = PInf"
| "np_add x PInf = PInf"
| "np_add NInf y = NInf"
| "np_add x NInf = NInf"

definition np_sub :: "npfloat \<Rightarrow> npfloat \<Rightarrow> npfloat" where
  "np_sub x y = np_add x (np_neg y)"

text \<open>The sign of an infinity times, or divided by, a finite factor.\<close>

definition signed_inf :: "bool \<Rightarrow> npfloat" where
  "signed_inf positive = (if positive then PInf else NInf)"

fun np_mul :: "npfloat \<Rightarrow> npfloat \<Rightarrow> npfloat" where
  "np_mul (Fin a) (Fin b) = Fin (a * b)"
| "np_mul NaN y = NaN"
| "np_mul x NaN = NaN"
| "np_mul PInf (Fin b) = (if b = 0 then NaN else signed_inf (0 < b))"
| "np_mul NInf (Fin b) = (if b = 0 then NaN else signed_inf (b < 0))"
| "np_mul (Fin a) PInf = (if a = 0 then NaN else signed_inf (0 < a))"
| "np_mul (Fin a) NInf = (if a = 0 then NaN else signed_inf (a < 0))"
| "np_mul PInf PInf = PInf"
| "np_mul PInf NInf = NInf"
| "np_mul NInf PInf = NInf"
| "np_mul NInf NInf = PInf"

text \<open>
  numpy's true division. A finite value over zero is an infinity with the sign of the
  numerator, zero over zero is NaN (a RuntimeWarning, no exception); a zero divisor is
  taken as \<open>+0.0\<close>, which is what \<open>x - x\<close> gives.
\<close>

fun np_div :: "npfloat \<Rightarrow> npfloat \<Rightarrow> npfloat" where
  "np_div (Fin a) (Fin b) =
     (if b = 0 then (if a = 0 then NaN else signed_inf (0 < a)) else Fin (a / b))"
| "np_div NaN y = NaN"
| "np_div x NaN = NaN"
| "np_div (Fin a) PInf = Fin 0"
| "np_div (Fin a) NInf = Fin 0"
| "np_div PInf (Fin b) = signed_inf (0 \<le> b)"
| "np_div NInf (Fin b) = signed_inf (b < 0)"
| "np_div PInf PInf = NaN"
| "np_div PInf NInf = NaN"
| "np_div NInf PInf = NaN"
| "np_div NInf NInf = NaN"

text \<open>
  \<^verbatim>\<open>np.clip(a, a_min, a_max)\<close> with finite bounds is
  \<^verbatim>\<open>minimum(maximum(a, a_min), a_max)\<close>: an infinity is cut to a bound, NaN stays NaN.
\<close>

fun np_clip :: "npfloat \<Rightarrow> real \<Rightarrow> real \<Rightarrow> npfloat" where
  "np_clip (Fin a) a_min a_max = Fin (min (max a a_min) a_max)"
| "np_clip PInf a_min a_max = Fin a_max"
| "np_clip NInf a_min a_max = Fin (min a_min a_max)"
| "np_clip NaN a_min a_max = NaN"


text \<open>Python exceptions the methods can raise.\<close>

datatype py_error = ValueError | IndexError

definition ebind :: "py_error + 'a \<Rightarrow> ('a \<Rightarrow> py_error + 'b) \<Rightarrow> py_error + 'b" where
  "ebind r f = (case r of Inl e \<Rightarrow> Inl e | Inr v \<Rightarrow> f v)"

text \<open>
  C's \<^verbatim>\<open>fmod\<close> (Python's \<^verbatim>\<open>math.fmod\<close>): \<open>x - n * y\<close> with \<open>n\<close> the quotient
  \<open>x / y\<close> rounded toward zero. \<^verbatim>\<open>math.fmod(x, 0.0)\<close> raises ValueError.
\<close>

definition trunc :: "real \<Rightarrow> int" where
  "trunc r = (if 0 \<le> r then \<lfloor>r\<rfloor> else \<lceil>r\<rceil>)"

definition fmod_rem :: "real \<Rightarrow> real \<Rightarrow> real" where
  "fmod_rem x y = x - y * of_int (trunc (x / y))"

definition fmod :: "real \<Rightarrow> real \<Rightarrow> py_error + real" where
  "fmod x y = (if y = 0 then Inl ValueError else Inr (fmod_rem x y))"

section \<open>Constants and the controller object\<close>

definition DRONE_MASS_KG :: real where "DRONE_MASS_KG = 0.5"
definition GRAVITY :: real where "GRAVITY = - 9.81"
definition MAX_THRUST :: real where "MAX_THRUST = 10.0"
definition MAX_TORQUE :: real where "MAX_TORQUE = 1.0"

record NonlinearController =
  z_k_p :: real
  z_k_d :: real
  z_k_i :: real
  x_k_p :: real
  x_k_d :: real
  y_k_p :: real
  y_k_d :: real
  k_p_roll :: real
  k_p_pitch :: real
  k_p_yaw :: real
  k_p_p :: real
  k_p_q :: real
  k_p_r :: real
  z_error_sum :: real

text \<open>\<^verbatim>\<open>__init__\<close>: the gains, with \<open>delta = 1.0\<close>, and an empty integral accumulator.\<close>

definition init :: NonlinearController where
  "init =
     (let delta = 1.0 in
      \<lparr> z_k_p = 64.0, z_k_d = sqrt 64.0 * 2 * delta, z_k_i = 1.0,
        x_k_p = 0.5 * 5, x_k_d = sqrt (0.5 * 5) * 2 * delta,
        y_k_p = 0.5 * 5, y_k_d = sqrt (0.5 * 5) * 2 * delta,
        k_p_roll = 0.02, k_p_pitch = 0.02, k_p_yaw = 2.5,
        k_p_p = 0.1 * 5, k_p_q = 0.1 * 5, k_p_r = 0.04 * 5,
        z_error_sum = 0.0 \<rparr>)"

type_synonym vec2 = "real \<times> real"
type_synonym vec3 = "real \<times> real \<times> real"
type_synonym npvec3 = "npfloat \<times> npfloat \<times> npfloat"
type_synonym attitude = "real \<times> real \<times> real"

section \<open>Rotation matrix\<close>

text \<open>
  A 3x3 array is a function of the row and the column index. \<^verbatim>\<open>R\<close> builds the three
  elementary rotations and multiplies them as \<^verbatim>\<open>Rz @ (Ry @ Rx)\<close>.
\<close>

type_synonym mat3 = "nat \<Rightarrow> nat \<Rightarrow> real"

definition array3 :: "real list list \<Rightarrow> mat3" where
  "array3 rows = (\<lambda>i j. rows ! i ! j)"

definition matmul :: "mat3 \<Rightarrow> mat3 \<Rightarrow> mat3" where
  "matmul A B = (\<lambda>i j. A i 0 * B 0 j + A i 1 * B 1 j + A i 2 * B 2 j)"

definition R :: "attitude \<Rightarrow> mat3" where
  "R att =
     (case att of (phi, theta, psi) \<Rightarrow>
        let Rx = array3 [[1, 0, 0],
                         [0, cos phi, - sin phi],
                         [0, sin phi, cos phi]];
            Ry = array3 [[cos theta, 0, sin theta],
                         [0, 1, 0],
                         [- sin theta, 0, cos theta]];
            Rz = array3 [[cos psi, - sin psi, 0],
                         [sin psi, cos psi, 0],
                         [0, 0, 1]]
        in matmul Rz (matmul Ry Rx))"

section \<open>The control stages\<close>

text \<open>
  Every method takes the controller object and returns its result together with the
  controller object after the call. Writing to standard output
  (\<^verbatim>\<open>print(thrust_cmd)\<close> in \<^verbatim>\<open>altitude_control\<close>) is not modelled.
\<close>

subsection \<open>altitude_control\<close>

definition altitude_control ::
  "NonlinearController \<Rightarrow> real \<Rightarrow> real \<Rightarrow> real \<Rightarrow> real \<Rightarrow> attitude \<Rightarrow> real
     \<Rightarrow> npfloat \<times> NonlinearController" where
  "altitude_control self altitude_cmd vertical_velocity_cmd altitude vertical_velocity
       att acceleration_ff =
     (let self = self\<lparr>z_error_sum := z_error_sum self + (altitude_cmd - altitude)\<rparr>;
          u_bar = z_k_p self * (altitude_cmd - altitude)
                  + z_k_d self * (vertical_velocity_cmd - vertical_velocity)
                  + z_k_i self * z_error_sum self + acceleration_ff;
          rot_mat = R att;
          thrust_cmd = np_div (Fin (u_bar + GRAVITY)) (Fin (rot_mat 2 2));
          thrust_cmd = np_clip thrust_cmd 0.1 (MAX_THRUST / DRONE_MASS_KG)
      in (thrust_cmd, self))"

text \<open>
  The commanded vertical acceleration \<open>u_bar\<close> of \<^verbatim>\<open>altitude_control\<close>, by itself: its
  integral term reads the accumulator after this call's error has been added.
\<close>

definition altitude_u_bar ::
  "NonlinearController \<Rightarrow> real \<Rightarrow> real \<Rightarrow> real \<Rightarrow> real \<Rightarrow> real \<Rightarrow> real" where
  "altitude_u_bar self altitude_cmd vertical_velocity_cmd altitude vertical_velocity
       acceleration_ff =
     z_k_p self * (altitude_cmd - altitude)
     + z_k_d self * (vertical_velocity_cmd - vertical_velocity)
     + z_k_i self * (z_error_sum self + (altitude_cmd - altitude)) + acceleration_ff"

subsection \<open>roll_pitch_controller\<close>

text \<open>
  The rate commands are computed and then dropped: the method returns at
  \<^verbatim>\<open>return np.array([0.0,0.0])\<close>, and the \<^verbatim>\<open>return np.array([-p_c,-q_c])\<close> two lines
  below is never reached.
\<close>

definition roll_pitch_controller ::
  "NonlinearController \<Rightarrow> vec2 \<Rightarrow> attitude \<Rightarrow> real
     \<Rightarrow> (npfloat \<times> npfloat) \<times> NonlinearController" where
  "roll_pitch_controller self acceleration_cmd att thrust_cmd =
     (let rot_mat = R att;
          R11 = rot_mat 0 0;
          R12 = rot_mat 0 1;
          R21 = rot_mat 1 0;
          R22 = rot_mat 1 1;
          R13 = rot_mat 0 2;
          R23 = rot_mat 1 2;
          R33 = rot_mat 2 2;
          b_x_c_dot = np_mul (Fin (k_p_roll self))
                        (np_sub (np_div (Fin (fst acceleration_cmd)) (Fin thrust_cmd)) (Fin R13));
          b_y_c_dot = np_mul (Fin (k_p_pitch self))
                        (np_sub (np_div (Fin (snd acceleration_cmd)) (Fin thrust_cmd)) (Fin R23));
          p_c = np_div (np_sub (np_mul (Fin R21) b_x_c_dot) (np_mul (Fin R11) b_y_c_dot)) (Fin R33);
          q_c = np_div (np_sub (np_mul (Fin R22) b_x_c_dot) (np_mul (Fin R12) b_y_c_dot)) (Fin R33)
      in ((Fin 0.0, Fin 0.0), self))"

text \<open>
  The rates the specification describes for this stage (its section 4.5), written from
  the specification's formulas, to compare the method with:
  \<open>b_x_dot = Kp_roll * (accel_cmd.x / thrust - R[0][2])\<close>,
  \<open>b_y_dot = Kp_pitch * (accel_cmd.y / thrust - R[1][2])\<close>,
  \<open>p_cmd = (R[1][0] * b_x_dot - R[0][0] * b_y_dot) / R[2][2]\<close>,
  \<open>q_cmd = (R[1][1] * b_x_dot - R[0][1] * b_y_dot) / R[2][2]\<close>, returned negated.
\<close>

definition spec_roll_pitch_rates ::
  "NonlinearController \<Rightarrow> vec2 \<Rightarrow> attitude \<Rightarrow> real \<Rightarrow> npfloat \<times> npfloat" where
  "spec_roll_pitch_rates self acceleration_cmd att thrust_cmd =
     (let b_x_dot = np_mul (Fin (k_p_roll self))
                      (np_sub (np_div (Fin (fst acceleration_cmd)) (Fin thrust_cmd))
                         (Fin (R att 0 2)));
          b_y_dot = np_mul (Fin (k_p_pitch self))
                      (np_sub (np_div (Fin (snd acceleration_cmd)) (Fin thrust_cmd))
                         (Fin (R att 1 2)));
          p_cmd = np_div (np_sub (np_mul (Fin (R att 1 0)) b_x_dot)
                            (np_mul (Fin (R att 0 0)) b_y_dot)) (Fin (R att 2 2));
          q_cmd = np_div (np_sub (np_mul (Fin (R att 1 1)) b_x_dot)
                            (np_mul (Fin (R att 0 1)) b_y_dot)) (Fin (R att 2 2))
      in (np_neg p_cmd, np_neg q_cmd))"

subsection \<open>lateral_position_control, body_rate_control\<close>

definition lateral_position_control ::
  "NonlinearController \<Rightarrow> vec2 \<Rightarrow> vec2 \<Rightarrow> vec2 \<Rightarrow> vec2 \<Rightarrow> vec2
     \<Rightarrow> vec2 \<times> NonlinearController" where
  "lateral_position_control self local_position_cmd local_velocity_cmd local_position
       local_velocity acceleration_ff =
     (let x_c_dot_dot = x_k_p self * (fst local_position_cmd - fst local_position)
                        + x_k_d self * (fst local_velocity_cmd - fst local_velocity)
                        + fst acceleration_ff;
          y_c_dot_dot = y_k_p self * (snd local_position_cmd - snd local_position)
                        + y_k_d self * (snd local_velocity_cmd - snd local_velocity)
                        + snd acceleration_ff
      in ((x_c_dot_dot, y_c_dot_dot), self))"

definition body_rate_control ::
  "NonlinearController \<Rightarrow> vec3 \<Rightarrow> vec3 \<Rightarrow> vec3 \<times> NonlinearController" where
  "body_rate_control self body_rate_cmd body_rate =
     (case (body_rate_cmd, body_rate) of ((p_cmd, q_cmd, r_cmd), (p, q, r)) \<Rightarrow>
        let error_pqr = (p_cmd - p, q_cmd - q, r_cmd - r);
            control_gain = (k_p_p self, k_p_q self, k_p_r self);
            u_bar_pqr = (case (control_gain, error_pqr) of ((g1, g2, g3), (e1, e2, e3)) \<Rightarrow>
                           (g1 * e1, g2 * e2, g3 * e3))
        in (u_bar_pqr, self))"

subsection \<open>yaw_control\<close>

definition yaw_control ::
  "NonlinearController \<Rightarrow> real \<Rightarrow> real \<Rightarrow> (py_error + real) \<times> NonlinearController" where
  "yaw_control self yaw_cmd yaw =
     (ebind (fmod (yaw_cmd - yaw) pi) (\<lambda>r. Inr (k_p_yaw self * r)), self)"


subsection \<open>trajectory_control\<close>

text \<open>
  \<^verbatim>\<open>np.argmin\<close>: the first index of the least entry; ValueError on an empty array.
\<close>

fun argmin_from :: "nat \<Rightarrow> real \<Rightarrow> nat \<Rightarrow> real list \<Rightarrow> nat" where
  "argmin_from best least i [] = best"
| "argmin_from best least i (x # xs) =
     (if x < least then argmin_from i x (Suc i) xs else argmin_from best least (Suc i) xs)"

fun np_argmin :: "real list \<Rightarrow> py_error + nat" where
  "np_argmin [] = Inl ValueError"
| "np_argmin (x # xs) = Inr (argmin_from 0 x 1 xs)"

text \<open>
  Subscripting a Python list: a negative index counts from the end, an index out of
  range raises IndexError.
\<close>

definition py_index :: "'a list \<Rightarrow> int \<Rightarrow> py_error + 'a" where
  "py_index xs i =
     (if 0 \<le> i \<and> i < int (length xs) then Inr (xs ! nat i)
      else if i < 0 \<and> - int (length xs) \<le> i then Inr (xs ! nat (int (length xs) + i))
      else Inl IndexError)"

text \<open>Arithmetic on 3-element arrays, entry by entry.\<close>

definition v3_sub :: "vec3 \<Rightarrow> vec3 \<Rightarrow> vec3" where
  "v3_sub a b = (case (a, b) of ((a1, a2, a3), (b1, b2, b3)) \<Rightarrow> (a1 - b1, a2 - b2, a3 - b3))"

definition v3_scale :: "vec3 \<Rightarrow> real \<Rightarrow> vec3" where
  "v3_scale a k = (case a of (a1, a2, a3) \<Rightarrow> (a1 * k, a2 * k, a3 * k))"

definition v3_div :: "vec3 \<Rightarrow> real \<Rightarrow> npvec3" where
  "v3_div a k =
     (case a of (a1, a2, a3) \<Rightarrow>
        (np_div (Fin a1) (Fin k), np_div (Fin a2) (Fin k), np_div (Fin a3) (Fin k)))"

definition v3_add :: "npvec3 \<Rightarrow> vec3 \<Rightarrow> npvec3" where
  "v3_add a b =
     (case (a, b) of ((a1, a2, a3), (b1, b2, b3)) \<Rightarrow>
        (np_add a1 (Fin b1), np_add a2 (Fin b2), np_add a3 (Fin b3)))"


text \<open>
  The first half of \<^verbatim>\<open>trajectory_control\<close> (to the end of the \<^verbatim>\<open>if\<close>): the nearest
  waypoint time and the segment \<open>(position0, position1, time0, time1)\<close> with the yaw
  command chosen from it.
\<close>

definition select_segment ::
  "vec3 list \<Rightarrow> real list \<Rightarrow> real list \<Rightarrow> real
     \<Rightarrow> py_error + (vec3 \<times> vec3 \<times> real \<times> real \<times> real)" where
  "select_segment position_trajectory yaw_trajectory time_trajectory current_time =
     ebind (np_argmin (map (\<lambda>x. \<bar>x - current_time\<bar>) time_trajectory)) (\<lambda>ind_min.
     ebind (py_index time_trajectory (int ind_min)) (\<lambda>time_ref.
       if current_time < time_ref then
         ebind (py_index position_trajectory (int ind_min - 1)) (\<lambda>position0.
         ebind (py_index position_trajectory (int ind_min)) (\<lambda>position1.
         ebind (py_index time_trajectory (int ind_min - 1)) (\<lambda>time0.
         ebind (py_index time_trajectory (int ind_min)) (\<lambda>time1.
         ebind (py_index yaw_trajectory (int ind_min - 1)) (\<lambda>yaw_cmd.
           Inr (position0, position1, time0, time1, yaw_cmd))))))
       else
         ebind (py_index yaw_trajectory (int ind_min)) (\<lambda>yaw_cmd.
           if int (length position_trajectory) - 1 \<le> int ind_min then
             ebind (py_index position_trajectory (int ind_min)) (\<lambda>position0.
             ebind (py_index position_trajectory (int ind_min)) (\<lambda>position1.
               Inr (position0, position1, 0.0, 1.0, yaw_cmd)))
           else
             ebind (py_index position_trajectory (int ind_min)) (\<lambda>position0.
             ebind (py_index position_trajectory (int ind_min + 1)) (\<lambda>position1.
             ebind (py_index time_trajectory (int ind_min)) (\<lambda>time0.
             ebind (py_index time_trajectory (int ind_min + 1)) (\<lambda>time1.
               Inr (position0, position1, time0, time1, yaw_cmd))))))))"

text \<open>The second half: linear interpolation on the segment.\<close>

definition interpolate ::
  "vec3 \<times> vec3 \<times> real \<times> real \<times> real \<Rightarrow> real \<Rightarrow> npvec3 \<times> npvec3 \<times> real" where
  "interpolate seg current_time =
     (case seg of (position0, position1, time0, time1, yaw_cmd) \<Rightarrow>
        let position_cmd =
              v3_add (v3_div (v3_scale (v3_sub position1 position0) (current_time - time0))
                        (time1 - time0)) position0;
            velocity_cmd = v3_div (v3_sub position1 position0) (time1 - time0)
        in (position_cmd, velocity_cmd, yaw_cmd))"

definition trajectory_control ::
  "NonlinearController \<Rightarrow> vec3 list \<Rightarrow> real list \<Rightarrow> real list \<Rightarrow> real
     \<Rightarrow> (py_error + npvec3 \<times> npvec3 \<times> real) \<times> NonlinearController" where
  "trajectory_control self position_trajectory yaw_trajectory time_trajectory current_time =
     (ebind (select_segment position_trajectory yaw_trajectory time_trajectory current_time)
        (\<lambda>seg. Inr (interpolate seg current_time)), self)"

section \<open>Facts about the rotation matrix\<close>

lemma R_2_2: "R (phi, theta, psi) 2 2 = cos theta * cos phi"
  by (simp add: R_def matmul_def array3_def)

section \<open>The roll and pitch stage\<close>

text \<open>
  C2. For every acceleration command, attitude and thrust command (zero or not),
  \<^verbatim>\<open>roll_pitch_controller\<close> returns the constant array \<open>(0.0, 0.0)\<close>: the rate commands
  it has computed are discarded.
\<close>

theorem roll_pitch_controller_returns_zero:
  "fst (roll_pitch_controller self acceleration_cmd att thrust_cmd) = (Fin 0, Fin 0)"
  by (simp add: roll_pitch_controller_def Let_def)

text \<open>
  C1. The claim is that \<^verbatim>\<open>roll_pitch_controller\<close> returns the negated rate commands
  \<open>(-p_cmd, -q_cmd)\<close>. With the gains of \<^verbatim>\<open>__init__\<close>, a level attitude, the
  acceleration command \<open>(1, 1)\<close> and unit thrust these rates are \<open>(0.02, -0.02)\<close>, and the
  method returns \<open>(0, 0)\<close>.
\<close>

theorem roll_pitch_controller_drops_rates:
  "fst (roll_pitch_controller init (1, 1) (0, 0, 0) 1) = (Fin 0, Fin 0)
   \<and> spec_roll_pitch_rates init (1, 1) (0, 0, 0) 1 = (Fin 0.02, Fin (- 0.02))
   \<and> fst (roll_pitch_controller init (1, 1) (0, 0, 0) 1)
       \<noteq> spec_roll_pitch_rates init (1, 1) (0, 0, 0) 1"
  by (simp add: roll_pitch_controller_def spec_roll_pitch_rates_def Let_def init_def
      R_def matmul_def array3_def np_sub_def)

section \<open>The yaw stage\<close>











section \<open>The altitude stage\<close>

lemma altitude_control_unfold:
  "altitude_control self ac vc a v att ff =
     (np_clip (np_div (Fin (altitude_u_bar self ac vc a v ff + GRAVITY)) (Fin (R att 2 2)))
        0.1 (MAX_THRUST / DRONE_MASS_KG),
      self\<lparr>z_error_sum := z_error_sum self + (ac - a)\<rparr>)"
  by (simp add: altitude_control_def altitude_u_bar_def Let_def)

lemma thrust_bounds: "(0.1 :: real) \<le> MAX_THRUST / DRONE_MASS_KG"
  by (simp add: MAX_THRUST_def DRONE_MASS_KG_def)




lemma u_bar_init: "altitude_u_bar init 0 0 0 0 ff = ff"
  by (simp add: altitude_u_bar_def init_def)

text \<open>
  C3, as claimed: a fresh controller hovering on the commanded altitude \<open>-5\<close> (zero
  velocities, level attitude, no feedforward) would return the magnitude of
  \<^verbatim>\<open>GRAVITY\<close>, 9.81. It does not.
\<close>

theorem altitude_control_hover_not_gravity:
  "fst (altitude_control init (- 5) 0 (- 5) 0 (0, 0, 0) 0) \<noteq> Fin \<bar>GRAVITY\<bar>"
  by (simp add: altitude_control_def init_def R_2_2 GRAVITY_def MAX_THRUST_def
      DRONE_MASS_KG_def Let_def)

text \<open>
  C3, as the code has it: in that call the raw command is \<open>(0 + GRAVITY) / 1 = -9.81\<close>,
  which lies below the clamp range and is cut to its lower bound: the thrust command
  is \<open>0.1\<close>.
\<close>

theorem altitude_control_hover_thrust:
  "fst (altitude_control init (- 5) 0 (- 5) 0 (0, 0, 0) 0) = Fin 0.1"
  by (simp add: altitude_control_def init_def R_2_2 GRAVITY_def MAX_THRUST_def
      DRONE_MASS_KG_def Let_def)


text \<open>
  So it is for every attitude with \<open>R[2][2] < 0\<close>: the quotient changes sign, and every
  commanded acceleration from \<open>0.1 * R[2][2] - GRAVITY\<close> upward gives the lower bound.
\<close>

lemma altitude_control_inverted_saturation:
  assumes "R att 2 2 < 0" "0.1 * R att 2 2 - GRAVITY \<le> altitude_u_bar self ac vc a v ff"
  shows "fst (altitude_control self ac vc a v att ff) = Fin 0.1"
proof -
  have "(altitude_u_bar self ac vc a v ff + GRAVITY) / R att 2 2 \<le> 0.1"
    using assms by (simp add: neg_divide_le_eq)
  with assms(1) thrust_bounds show ?thesis
    by (simp add: altitude_control_unfold min_def max_def)
qed

text \<open>
  In exact arithmetic a roll of \<open>\<pi>/2\<close> makes \<open>R[2][2]\<close> zero, and a commanded acceleration
  that cancels \<^verbatim>\<open>GRAVITY\<close> then gives zero over zero: NaN, which \<^verbatim>\<open>np.clip\<close> passes on.
\<close>

lemma altitude_control_zero_over_zero:
  "fst (altitude_control init 0 0 0 0 (pi / 2, 0, 0) 9.81) = NaN"
  by (simp add: altitude_control_unfold u_bar_init R_2_2 GRAVITY_def)





section \<open>Which stage writes the controller\<close>

text \<open>
  C9. \<^verbatim>\<open>trajectory_control\<close>, \<^verbatim>\<open>lateral_position_control\<close>, \<^verbatim>\<open>roll_pitch_controller\<close>,
  \<^verbatim>\<open>body_rate_control\<close> and \<^verbatim>\<open>yaw_control\<close> return the controller as they received it,
  every gain and \<open>z_error_sum\<close>, for all arguments (also when \<^verbatim>\<open>trajectory_control\<close>
  raises). \<^verbatim>\<open>altitude_control\<close> returns it with \<open>z_error_sum\<close> updated and every gain as
  before, and it is a change exactly when the altitude error is not zero.
\<close>

theorem only_altitude_control_writes:
  "snd (trajectory_control self position_trajectory yaw_trajectory time_trajectory current_time)
     = self
   \<and> snd (lateral_position_control self local_position_cmd local_velocity_cmd local_position
            local_velocity acceleration_ff2) = self
   \<and> snd (roll_pitch_controller self acceleration_cmd att thrust_cmd) = self
   \<and> snd (body_rate_control self body_rate_cmd body_rate) = self
   \<and> snd (yaw_control self yaw_cmd yaw) = self
   \<and> snd (altitude_control self ac vc a v att ff)
       = self\<lparr>z_error_sum := z_error_sum self + (ac - a)\<rparr>
   \<and> (snd (altitude_control self ac vc a v att ff) = self) = (ac = a)"
proof -
  have "(self\<lparr>z_error_sum := z_error_sum self + (ac - a)\<rparr> = self) = (ac = a)"
  proof
    assume "self\<lparr>z_error_sum := z_error_sum self + (ac - a)\<rparr> = self"
    then have "z_error_sum (self\<lparr>z_error_sum := z_error_sum self + (ac - a)\<rparr>) = z_error_sum self"
      by simp
    then show "ac = a" by simp
  qed simp
  then show ?thesis
    by (simp add: trajectory_control_def lateral_position_control_def roll_pitch_controller_def
        body_rate_control_def yaw_control_def altitude_control_unfold Let_def split: prod.splits)
qed

section \<open>The trajectory sampler\<close>

subsection \<open>The nearest waypoint and list subscripts\<close>

lemma argmin_from_keep:
  "\<forall>x\<in>set xs. least \<le> x \<Longrightarrow> argmin_from best least i xs = best"
  by (induction xs arbitrary: i) auto


lemma np_argmin_first:
  assumes "xs \<noteq> []" "\<forall>x\<in>set xs. hd xs \<le> x"
  shows "np_argmin xs = Inr 0"
  using assms by (cases xs) (auto simp: argmin_from_keep)


lemma py_index_nat: "n < length xs \<Longrightarrow> py_index xs (int n) = Inr (xs ! n)"
  by (simp add: py_index_def)

lemma py_index_last: "xs \<noteq> [] \<Longrightarrow> py_index xs (- 1) = Inr (last xs)"
proof -
  assume ne: "xs \<noteq> []"
  then have "nat (int (length xs) - 1) = length xs - 1" by simp
  moreover from ne have "1 \<le> int (length xs)" by (cases xs) auto
  ultimately show ?thesis using ne by (simp add: py_index_def last_conv_nth)
qed

lemma ebind_Inr: "ebind (Inr v) f = f v"
  by (simp add: ebind_def)

text \<open>
  The distances \<open>|time - current_time|\<close> that \<^verbatim>\<open>np.argmin\<close> searches: before the first
  of sorted times the first distance is least, from the last of increasing times on the
  distances fall strictly.
\<close>

lemma distances_before_first:
  fixes ts :: "real list"
  assumes "sorted ts" "ts \<noteq> []" "t < hd ts"
  shows "\<forall>d\<in>set (map (\<lambda>x. \<bar>x - t\<bar>) ts). hd (map (\<lambda>x. \<bar>x - t\<bar>) ts) \<le> d"
proof -
  from assms obtain a as where ts: "ts = a # as" by (cases ts) auto
  with assms have "\<forall>x\<in>set ts. a \<le> x" by auto
  moreover from assms ts have "t < a" by simp
  ultimately show ?thesis unfolding ts by (auto simp: abs_if)
qed



subsection \<open>A segment with equal end times\<close>




text \<open>Where the end positions differ, the entries are infinities.\<close>

lemma trajectory_control_infinite_example:
  "fst (trajectory_control init [(0, 0, 0), (1, 0, 0)] [0, 1] [2, 2] 1)
     = Inr ((PInf, NaN, NaN), (NInf, NaN, NaN), 1)"
  by (simp add: trajectory_control_def select_segment_def interpolate_def ebind_def py_index_def
      v3_add_def v3_div_def v3_scale_def v3_sub_def Let_def signed_inf_def)



subsection \<open>Before the first and after the last waypoint\<close>

text \<open>
  C10. For waypoint lists of equal lengths with at least two waypoints and sorted
  times, asked at a time before the first waypoint's: the nearest index is 0, the
  subscript \<open>ind_min - 1 = -1\<close> reads the last waypoint, so the segment starts at the
  last waypoint (its position and its time) and ends at the first, the result is the
  interpolation on that segment, and the yaw command is the last waypoint's yaw.
\<close>

theorem trajectory_control_before_first:
  fixes time_trajectory :: "real list"
  assumes "length position_trajectory = length time_trajectory"
    and "length yaw_trajectory = length time_trajectory"
    and "2 \<le> length time_trajectory"
    and "sorted time_trajectory"
    and "current_time < hd time_trajectory"
  shows "np_argmin (map (\<lambda>x. \<bar>x - current_time\<bar>) time_trajectory) = Inr 0
    \<and> select_segment position_trajectory yaw_trajectory time_trajectory current_time
        = Inr (last position_trajectory, hd position_trajectory,
               last time_trajectory, hd time_trajectory, last yaw_trajectory)
    \<and> fst (trajectory_control self position_trajectory yaw_trajectory time_trajectory
             current_time)
        = Inr (v3_add (v3_div (v3_scale (v3_sub (hd position_trajectory)
                                           (last position_trajectory))
                                 (current_time - last time_trajectory))
                         (hd time_trajectory - last time_trajectory))
                 (last position_trajectory),
               v3_div (v3_sub (hd position_trajectory) (last position_trajectory))
                 (hd time_trajectory - last time_trajectory),
               last yaw_trajectory)"
proof -
  from assms have ne: "time_trajectory \<noteq> []" "position_trajectory \<noteq> []" "yaw_trajectory \<noteq> []"
    by auto
  have len: "0 < length time_trajectory" "0 < length position_trajectory"
    "0 < length yaw_trajectory"
    using assms by auto
  have am: "np_argmin (map (\<lambda>x. \<bar>x - current_time\<bar>) time_trajectory) = Inr 0"
    using distances_before_first[OF assms(4) ne(1) assms(5)] ne(1)
    by (intro np_argmin_first) auto
  have i0: "py_index time_trajectory (int 0) = Inr (hd time_trajectory)"
    "py_index position_trajectory (int 0) = Inr (hd position_trajectory)"
    using len ne by (simp_all add: py_index_nat hd_conv_nth del: of_nat_0)
  have seg: "select_segment position_trajectory yaw_trajectory time_trajectory current_time
        = Inr (last position_trajectory, hd position_trajectory,
               last time_trajectory, hd time_trajectory, last yaw_trajectory)"
    unfolding select_segment_def am ebind_Inr i0
    using assms(5) i0 ne by (simp add: ebind_Inr py_index_last)
  show ?thesis
    using am seg by (simp add: trajectory_control_def ebind_Inr interpolate_def Let_def)
qed

theorem trajectory_control_before_first_witness:
  "length [(0, 0, 0), (10, 0, 0) :: vec3] = length [0, 10 :: real]
   \<and> length [1, 2 :: real] = length [0, 10 :: real]
   \<and> 2 \<le> length [0, 10 :: real]
   \<and> sorted [0, 10 :: real]
   \<and> - 5 < hd [0, 10 :: real]
   \<and> fst (trajectory_control init [(0, 0, 0), (10, 0, 0)] [1, 2] [0, 10] (- 5))
       = Inr ((Fin (- 5), Fin 0, Fin 0), (Fin 1, Fin 0, Fin 0), 2)"
proof -
  have "sorted [0, 10 :: real]" "- 5 < hd [0, 10 :: real]" by simp_all
  from trajectory_control_before_first[of "[(0, 0, 0), (10, 0, 0)]" "[0, 10]" "[1, 2]" "- 5" init,
      OF _ _ _ this]
  show ?thesis
    by (simp add: v3_add_def v3_div_def v3_scale_def v3_sub_def)
qed



end
